theory Spec2Isabelle
  imports Complex_Main "HOL-Library.AList" "HOL-Library.Log_Nat"
begin

section \<open>JavaScript numbers\<close>

text \<open>
  A JavaScript number is an IEEE 754 binary64 value. The coordinates the code receives
  are finite ones; a finite double is a real number here, and the result of an operation
  is a real or an infinity (\<open>NaN\<close> does not arise from the subtractions the code makes
  on finite coordinates). \<open>to_double\<close> rounds a real to the nearest double, ties to
  the even significand, with the exponent range of binary64: 53 significant bits, the
  least unit \<open>pow2 (- 1074)\<close>, overflow to an infinity from \<open>pow2 1024\<close> on.
\<close>

datatype xdouble = NegInf | Num real | PosInf

definition pow2 :: "int \<Rightarrow> real" where
  "pow2 k = (if 0 \<le> k then 2 ^ nat k else 1 / 2 ^ nat (- k))"

definition round_half_even :: "real \<Rightarrow> int" where
  "round_half_even x =
     (let q = \<lfloor>x\<rfloor>; f = x - of_int q
      in if f < 1 / 2 then q
         else if 1 / 2 < f then q + 1
         else if even q then q else q + 1)"

text \<open>The exponent of the leading bit of a positive real.\<close>

definition floor_log2 :: "real \<Rightarrow> int" where
  "floor_log2 a = (if 1 \<le> a then bitlen \<lfloor>a\<rfloor> - 1 else - bitlen (\<lceil>1 / a\<rceil> - 1))"

definition to_double :: "real \<Rightarrow> xdouble" where
  "to_double r =
     (if r = 0 then Num 0
      else
        (let k = max (floor_log2 \<bar>r\<bar> - 52) (- 1074);
             n = round_half_even (\<bar>r\<bar> / pow2 k)
         in if 1024 < k + bitlen n then (if r < 0 then NegInf else PosInf)
            else Num (if r < 0 then - (of_int n * pow2 k) else of_int n * pow2 k)))"

text \<open>A real is a finite double when rounding leaves it as it is.\<close>

definition is_double :: "real \<Rightarrow> bool" where
  "is_double r = (to_double r = Num r)"

text \<open>\<open>a - b\<close> for a finite \<open>a\<close>, and \<open>a < b\<close>.\<close>

definition js_minus :: "real \<Rightarrow> xdouble \<Rightarrow> xdouble" where
  "js_minus a b =
     (case b of NegInf \<Rightarrow> PosInf | Num r \<Rightarrow> to_double (a - r) | PosInf \<Rightarrow> NegInf)"

definition js_less :: "xdouble \<Rightarrow> xdouble \<Rightarrow> bool" where
  "js_less a b =
     (case a of
        NegInf \<Rightarrow> b \<noteq> NegInf
      | Num r \<Rightarrow> (case b of NegInf \<Rightarrow> False | Num s \<Rightarrow> r < s | PosInf \<Rightarrow> True)
      | PosInf \<Rightarrow> False)"

section \<open>Side detector and position mapper (dirHover.utils.ts)\<close>

text \<open>
  A \<open>DOMRect\<close> keeps the four fields the code reads; a mouse event keeps its client
  coordinates and the bounding rectangle of its \<open>currentTarget\<close>, which the mouse
  handler asks for. All of them are finite doubles.
\<close>

record dom_rect =
  rect_left :: real
  rect_top :: real
  rect_width :: real
  rect_height :: real

record mouse_event =
  clientX :: real
  clientY :: real
  currentTargetRect :: dom_rect

text \<open>The object literal \<open>distances\<close>, in the order \<open>Object.entries\<close> lists its keys.\<close>

definition distances :: "mouse_event \<Rightarrow> dom_rect \<Rightarrow> (string \<times> xdouble) list" where
  "distances event rect =
     (let x = js_minus (clientX event) (Num (rect_left rect));
          y = js_minus (clientY event) (Num (rect_top rect))
      in [(''left'', x),
          (''right'', js_minus (rect_width rect) x),
          (''top'', y),
          (''bottom'', js_minus (rect_height rect) y)])"

text \<open>
  The callback of \<open>reduce\<close>: \<open>distance < distances[closest] ? side : closest\<close>.
  A key that is not in the object reads as \<open>undefined\<close>, and a comparison with
  \<open>undefined\<close> is false.
\<close>

definition closer :: "(string \<times> xdouble) list \<Rightarrow> string \<Rightarrow> string \<times> xdouble \<Rightarrow> string" where
  "closer ds closest entry =
     (case map_of ds closest of
        None \<Rightarrow> closest
      | Some d \<Rightarrow> if js_less (snd entry) d then fst entry else closest)"

definition detectSide :: "mouse_event \<Rightarrow> dom_rect \<Rightarrow> string" where
  "detectSide event rect =
     foldl (closer (distances event rect)) ''left'' (distances event rect)"

text \<open>
  The rule in the words of the specification, for a pointer at \<open>(x, y)\<close> relative to the
  corner of a rectangle of the given width and height, on the exact distances: the edge
  at the least distance, the first one in the order left, right, top, bottom where
  several are equally near.
\<close>

definition nearest_edge :: "real \<Rightarrow> real \<Rightarrow> real \<Rightarrow> real \<Rightarrow> string" where
  "nearest_edge x y w h =
     (let m = min x (min (w - x) (min y (h - y)))
      in if x = m then ''left''
         else if w - x = m then ''right''
         else if y = m then ''top''
         else ''bottom'')"

text \<open>The fold of \<open>detectSide\<close> over its four entries, written out.\<close>

definition pick :: "xdouble \<Rightarrow> xdouble \<Rightarrow> xdouble \<Rightarrow> xdouble \<Rightarrow> string" where
  "pick l r t b =
     (let c1 = (if js_less r l then ''right'' else ''left'');
          d1 = (if js_less r l then r else l);
          c2 = (if js_less t d1 then ''top'' else c1);
          d2 = (if js_less t d1 then t else d1)
      in if js_less b d2 then ''bottom'' else c2)"

record position =
  xPercent :: int
  yPercent :: int

definition getPositionFromSide :: "string \<Rightarrow> position" where
  "getPositionFromSide side =
     (if side = ''left'' then \<lparr>xPercent = -101, yPercent = 0\<rparr>
      else if side = ''right'' then \<lparr>xPercent = 101, yPercent = 0\<rparr>
      else if side = ''top'' then \<lparr>xPercent = 0, yPercent = -101\<rparr>
      else if side = ''bottom'' then \<lparr>xPercent = 0, yPercent = 101\<rparr>
      else if side = ''center'' then \<lparr>xPercent = 0, yPercent = 0\<rparr>
      else \<lparr>xPercent = 0, yPercent = 101\<rparr>)"

section \<open>Options and their defaults (dirHover.types.ts, dirHover.attach.ts)\<close>

text \<open>
  A JavaScript value that may be \<open>undefined\<close>. A property of a \<open>Partial\<close> object is
  absent (\<open>None\<close>), present with the value \<open>undefined\<close>, or present with a value:
  object spread copies every present property, whatever its value, while \<open>??\<close> falls
  back on \<open>undefined\<close>.
\<close>

datatype 'a js = Undefined | Defined 'a

record partial_animation =
  pa_duration :: "real js option"
  pa_ease :: "string js option"

record partial_overlay =
  po_background :: "string js option"
  po_opacity :: "real js option"
  po_mixBlendMode :: "string js option"

record partial_touchPosition =
  pt_start :: "string js option"
  pt_end :: "string js option"

text \<open>A user callback is opaque: it is known by a name, and the world records its calls.\<close>

type_synonym callback = nat

record user_options =
  u_animation :: "partial_animation option"
  u_overlay :: "partial_overlay option"
  u_touchPosition :: "partial_touchPosition option"
  parentAttrs :: "(string \<times> string) list option"
  childAttrs :: "(string \<times> string) list option"
  curtainAttrs :: "(string \<times> string) list option"
  parentClass :: "string option"
  childClass :: "string option"
  curtainClass :: "string option"
  onEnter :: "callback option"
  onLeave :: "callback option"

record animation_options =
  duration :: "real js"
  ease :: "string js"

record overlay_options =
  background :: "string js"
  opacity :: "real js"
  mixBlendMode :: "string js"

record touch_options =
  touch_start :: string
  touch_end :: string

record options =
  animation :: animation_options
  overlay :: overlay_options
  touchPosition :: touch_options

definition defaultOptions :: options where
  "defaultOptions =
     \<lparr>animation = \<lparr>duration = Defined 0.125, ease = Defined ''power2.out''\<rparr>,
      overlay = \<lparr>background = Defined ''rgba(30, 30, 40, 0.12)'',
                 opacity = Defined 1,
                 mixBlendMode = Defined ''normal''\<rparr>,
      touchPosition = \<lparr>touch_start = ''bottom'', touch_end = ''top''\<rparr>\<rparr>"

text \<open>One property of \<open>{ ...defaults, ...user }\<close>: a present property of the user wins.\<close>

definition spread :: "'a js \<Rightarrow> 'a js option \<Rightarrow> 'a js" where
  "spread d u = (case u of None \<Rightarrow> d | Some v \<Rightarrow> v)"

text \<open>\<open>u ?? d\<close>, for a property \<open>u\<close> read from an object.\<close>

definition nullish :: "'a js option \<Rightarrow> 'a \<Rightarrow> 'a" where
  "nullish u d = (case u of Some (Defined v) \<Rightarrow> v | _ \<Rightarrow> d)"

text \<open>The \<open>options\<close> object that \<open>dirhover(userOptions)\<close> builds before it returns.\<close>

definition merge_options :: "user_options \<Rightarrow> options" where
  "merge_options userOptions =
     \<lparr>animation =
        (case u_animation userOptions of
           None \<Rightarrow> animation defaultOptions
         | Some a \<Rightarrow>
             \<lparr>duration = spread (duration (animation defaultOptions)) (pa_duration a),
              ease = spread (ease (animation defaultOptions)) (pa_ease a)\<rparr>),
      overlay =
        (case u_overlay userOptions of
           None \<Rightarrow> overlay defaultOptions
         | Some ov \<Rightarrow>
             \<lparr>background = spread (background (overlay defaultOptions)) (po_background ov),
              opacity = spread (opacity (overlay defaultOptions)) (po_opacity ov),
              mixBlendMode = spread (mixBlendMode (overlay defaultOptions)) (po_mixBlendMode ov)\<rparr>),
      touchPosition =
        \<lparr>touch_start =
           nullish (case u_touchPosition userOptions of None \<Rightarrow> None | Some t \<Rightarrow> pt_start t)
             (touch_start (touchPosition defaultOptions)),
         touch_end =
           nullish (case u_touchPosition userOptions of None \<Rightarrow> None | Some t \<Rightarrow> pt_end t)
             (touch_end (touchPosition defaultOptions))\<rparr>\<rparr>"

text \<open>
  What the claim about the merge asks of one field, a field counting as supplied when the
  user gave it a value: the default where none was supplied, the supplied value otherwise.
\<close>

definition merged_as_specified :: "'a \<Rightarrow> 'a js option \<Rightarrow> 'a js" where
  "merged_as_specified d u = (case u of Some (Defined v) \<Rightarrow> Defined v | _ \<Rightarrow> Defined d)"

section \<open>The document (the DOM calls the code makes)\<close>

text \<open>
  A node is a text node, an element this code holds no reference to (one the page or the
  parser built), or an element that \<open>document.createElement\<close> made here, known by its
  identity. The browser's HTML parser and serialiser are not part of this code: they are
  the two fields of a \<open>browser\<close>, the parser taking the tag of the context element, and
  reading \<open>innerHTML\<close> serialises the children while assigning it replaces them by
  what the parser builds. A style value is a string, \<open>StyleNum r\<close> for the string
  \<open>r.toString()\<close>, or \<open>undefined\<close>. \<open>setAttribute\<close> lower-cases the name, as it
  does in an HTML document; names are taken to be ones the browser accepts.
\<close>

datatype style_value = StyleStr string | StyleNum real | StyleUndefined

datatype dnode =
    Text string
  | Other string "(string \<times> string) list" "dnode list"
  | Element (el_id: nat) (el_tag: string) (el_attrs: "(string \<times> string) list")
      (el_style: "(string \<times> style_value) list") (el_className: string)
      (el_children: "dnode list")

datatype js_error = TypeError | NotFoundError | InvalidCharacterError

record browser =
  parseHTML :: "string \<Rightarrow> string \<Rightarrow> dnode list"
  serializeHTML :: "dnode list \<Rightarrow> string"

definition is_node :: "nat \<Rightarrow> dnode \<Rightarrow> bool" where
  "is_node i n = (case n of Element j _ _ _ _ _ \<Rightarrow> i = j | _ \<Rightarrow> False)"

text \<open>\<open>Node.contains\<close>: the node itself or one of its descendants.\<close>

fun contains_node :: "nat \<Rightarrow> dnode \<Rightarrow> bool" where
  "contains_node i (Text s) = False"
| "contains_node i (Other t a ks) = (\<exists>k \<in> set ks. contains_node i k)"
| "contains_node i (Element j t a st c ks) = (i = j \<or> (\<exists>k \<in> set ks. contains_node i k))"

definition node_contains :: "dnode list \<Rightarrow> nat \<Rightarrow> bool" where
  "node_contains cs i = (\<exists>k \<in> set cs. contains_node i k)"

fun remove_node :: "nat \<Rightarrow> dnode list \<Rightarrow> dnode list" where
  "remove_node i [] = []"
| "remove_node i (k # ks) = (if is_node i k then ks else k # remove_node i ks)"

text \<open>\<open>Node.removeChild\<close> throws \<open>NotFoundError\<close> unless the node is a child.\<close>

definition removeChild :: "dnode list \<Rightarrow> nat \<Rightarrow> js_error + dnode list" where
  "removeChild cs i =
     (if (\<exists>k \<in> set cs. is_node i k) then Inr (remove_node i cs) else Inl NotFoundError)"

text \<open>
  A \<open>Record<string, string>\<close> is an association list in insertion order; setting a key
  that is there keeps its place.
\<close>

definition assign_all :: "('k \<times> 'v) list \<Rightarrow> ('k \<times> 'v) list \<Rightarrow> ('k \<times> 'v) list" where
  "assign_all entries target = fold (\<lambda>(k, v). AList.update k v) entries target"

definition ascii_lower :: "char \<Rightarrow> char" where
  "ascii_lower c =
     (if 65 \<le> (of_char c :: nat) \<and> (of_char c :: nat) \<le> 90
      then char_of ((of_char c :: nat) + 32) else c)"

definition setAttribute :: "string \<Rightarrow> string \<Rightarrow> (string \<times> string) list \<Rightarrow> (string \<times> string) list" where
  "setAttribute name v attrs = AList.update (map ascii_lower name) v attrs"

definition setAttributes :: "(string \<times> string) list \<Rightarrow> (string \<times> string) list \<Rightarrow> (string \<times> string) list" where
  "setAttributes entries attrs = fold (\<lambda>(k, v). setAttribute k v) entries attrs"

definition truthy :: "string option \<Rightarrow> bool" where
  "truthy s = (case s of None \<Rightarrow> False | Some v \<Rightarrow> v \<noteq> [])"

text \<open>The characters that make \<open>classList.add\<close> throw \<open>InvalidCharacterError\<close>.\<close>

definition ascii_whitespace :: "char \<Rightarrow> bool" where
  "ascii_whitespace c = ((of_char c :: nat) \<in> {9, 10, 12, 13, 32})"

text \<open>
  The closures of one attachment (the four entries of \<open>handlers\<close>) share what they
  capture: the overlay element, the merged options and the user's options.
\<close>

record closure_env =
  env_curtain :: "nat option"
  env_options :: options
  env_user :: user_options

record host =
  h_tag :: string
  h_attrs :: "(string \<times> string) list"
  h_style :: "(string \<times> style_value) list"
  h_classList :: "string list"
  h_children :: "dnode list"
  h_listeners :: "(string \<times> closure_env) list"

section \<open>The animation engine and the tween table\<close>

text \<open>
  The engine (GSAP) is an outside library. Its tweens are kept in a store by identity;
  \<open>fromTo\<close> and \<open>to\<close> create a tween, \<open>kill\<close> stops one without firing its
  callback, \<open>eventCallback\<close> replaces the completion callback. The engine decides from
  the tween's variables whether the tween completes inside the call that creates it
  (\<open>immediate\<close>; a tween of duration zero does), firing its completion callback there,
  before the call returns; any other tween runs, and the engine completes it some time
  later, firing the callback the tween then has. The two completion callbacks the code
  writes are \<open>ClearHandle\<close> (\<open>tweenMap.delete(curtain)\<close>) and \<open>StartOut\<close> (start the
  out tween and store it).
\<close>

record engine =
  immediate :: "animation_options \<Rightarrow> bool"

datatype action_animation = AnimIn | AnimOut

datatype on_complete =
    ClearHandle nat
  | StartOut nat position animation_options

record tween =
  tw_target :: nat
  tw_from :: "position option"
  tw_to :: position
  tw_vars :: animation_options
  tw_onComplete :: on_complete
  tw_active :: bool

datatype gsap_call =
    GsapSet nat position
  | GsapFromTo nat nat position position animation_options
  | GsapTo nat nat position animation_options
  | TweenKill nat
  | TweenEventCallback nat on_complete

record world =
  window_defined :: bool
  created :: nat
  tweens :: "nat \<rightharpoonup> tween"
  next_tween :: nat
  tweenMap :: "nat \<rightharpoonup> nat"
  gsap_log :: "gsap_call list"
  invoked :: "callback list"

definition gsap_set :: "nat \<Rightarrow> position \<Rightarrow> world \<Rightarrow> world" where
  "gsap_set target pos w = w\<lparr>gsap_log := gsap_log w @ [GsapSet target pos]\<rparr>"

fun cb_rank :: "on_complete \<Rightarrow> nat" where
  "cb_rank (ClearHandle c) = 0"
| "cb_rank (StartOut c pos vars) = 1"

function gsap_to ::
    "engine \<Rightarrow> nat \<Rightarrow> position \<Rightarrow> animation_options \<Rightarrow> on_complete \<Rightarrow> world \<Rightarrow> nat \<times> world"
  and run_onComplete :: "engine \<Rightarrow> on_complete \<Rightarrow> world \<Rightarrow> world" where
  "gsap_to e target toVars vars cb w =
     (let w1 = w\<lparr>tweens := (tweens w)(next_tween w \<mapsto>
                    \<lparr>tw_target = target, tw_from = None, tw_to = toVars, tw_vars = vars,
                     tw_onComplete = cb, tw_active = (\<not> immediate e vars)\<rparr>),
                 next_tween := Suc (next_tween w),
                 gsap_log := gsap_log w @ [GsapTo (next_tween w) target toVars vars]\<rparr>
      in (next_tween w, if immediate e vars then run_onComplete e cb w1 else w1))"
| "run_onComplete e (ClearHandle curtain) w = w\<lparr>tweenMap := (tweenMap w)(curtain := None)\<rparr>"
| "run_onComplete e (StartOut curtain pos vars) w =
     (let (tween, w1) = gsap_to e curtain pos vars (ClearHandle curtain) w
      in w1\<lparr>tweenMap := (tweenMap w1)(curtain \<mapsto> tween)\<rparr>)"
  by pat_completeness auto
termination
  by (relation "measure (\<lambda>x. case x of
                   Inl (e, target, toVars, vars, cb, w) \<Rightarrow> 2 * cb_rank cb + 1
                 | Inr (e, cb, w) \<Rightarrow> 2 * cb_rank cb)") auto

definition gsap_fromTo ::
  "engine \<Rightarrow> nat \<Rightarrow> position \<Rightarrow> position \<Rightarrow> animation_options \<Rightarrow> on_complete \<Rightarrow> world
     \<Rightarrow> nat \<times> world" where
  "gsap_fromTo e target fromVars toVars vars cb w =
     (let w1 = w\<lparr>tweens := (tweens w)(next_tween w \<mapsto>
                    \<lparr>tw_target = target, tw_from = Some fromVars, tw_to = toVars, tw_vars = vars,
                     tw_onComplete = cb, tw_active = (\<not> immediate e vars)\<rparr>),
                 next_tween := Suc (next_tween w),
                 gsap_log := gsap_log w @ [GsapFromTo (next_tween w) target fromVars toVars vars]\<rparr>
      in (next_tween w, if immediate e vars then run_onComplete e cb w1 else w1))"

definition tween_kill :: "nat \<Rightarrow> world \<Rightarrow> world" where
  "tween_kill t w =
     w\<lparr>tweens := (case tweens w t of
                    None \<Rightarrow> tweens w
                  | Some tw \<Rightarrow> (tweens w)(t \<mapsto> tw\<lparr>tw_active := False\<rparr>)),
       gsap_log := gsap_log w @ [TweenKill t]\<rparr>"

definition tween_eventCallback :: "nat \<Rightarrow> on_complete \<Rightarrow> world \<Rightarrow> world" where
  "tween_eventCallback t cb w =
     w\<lparr>tweens := (case tweens w t of
                    None \<Rightarrow> tweens w
                  | Some tw \<Rightarrow> (tweens w)(t \<mapsto> tw\<lparr>tw_onComplete := cb\<rparr>)),
       gsap_log := gsap_log w @ [TweenEventCallback t cb]\<rparr>"

text \<open>The engine finishes tween \<open>t\<close>: nothing happens unless it is still running.\<close>

definition complete_tween :: "engine \<Rightarrow> nat \<Rightarrow> world \<Rightarrow> world" where
  "complete_tween e t w =
     (case tweens w t of
        None \<Rightarrow> w
      | Some tw \<Rightarrow>
          if tw_active tw
          then run_onComplete e (tw_onComplete tw)
                 (w\<lparr>tweens := (tweens w)(t \<mapsto> tw\<lparr>tw_active := False\<rparr>)\<rparr>)
          else w)"

section \<open>The handlers (dirHover.handlers.ts)\<close>

definition dirHoverHandler ::
  "engine \<Rightarrow> action_animation \<Rightarrow> nat option \<Rightarrow> options \<Rightarrow> (action_animation \<Rightarrow> 'e \<Rightarrow> string)
     \<Rightarrow> 'e \<Rightarrow> world \<Rightarrow> world" where
  "dirHoverHandler e action curtain opts getDirection event w =
     (case curtain of
        None \<Rightarrow> w
      | Some c \<Rightarrow>
          (let currentTween = tweenMap w c;
               direction = getDirection action event;
               pos = getPositionFromSide direction
           in if action = AnimIn then
                (let w1 = (case currentTween of Some t \<Rightarrow> tween_kill t w | None \<Rightarrow> w);
                     (tween, w2) =
                       gsap_fromTo e c pos \<lparr>xPercent = 0, yPercent = 0\<rparr> (animation opts)
                         (ClearHandle c) w1
                 in w2\<lparr>tweenMap := (tweenMap w2)(c \<mapsto> tween)\<rparr>)
              else
                (case currentTween of
                   Some t \<Rightarrow> tween_eventCallback t (StartOut c pos (animation opts)) w
                 | None \<Rightarrow>
                     (let (tween, w1) = gsap_to e c pos (animation opts) (ClearHandle c) w
                      in w1\<lparr>tweenMap := (tweenMap w1)(c \<mapsto> tween)\<rparr>))))"

definition createMouseHandler ::
  "engine \<Rightarrow> action_animation \<Rightarrow> nat \<Rightarrow> options \<Rightarrow> mouse_event \<Rightarrow> world \<Rightarrow> world" where
  "createMouseHandler e action curtain opts event w =
     dirHoverHandler e action (Some curtain) opts
       (\<lambda>a ev. detectSide ev (currentTargetRect ev)) event w"

definition createTouchHandler ::
  "engine \<Rightarrow> action_animation \<Rightarrow> nat \<Rightarrow> options \<Rightarrow> world \<Rightarrow> world" where
  "createTouchHandler e action curtain opts w =
     dirHoverHandler e action (Some curtain) opts
       (\<lambda>a ev. if a = AnimIn then touch_start (touchPosition opts)
                else touch_end (touchPosition opts)) () w"

text \<open>What can happen to the tween table: a handler runs, or the engine completes a tween.\<close>

datatype hover_event =
    MouseHover action_animation nat options mouse_event
  | TouchHover action_animation nat options
  | TweenComplete nat

fun step :: "engine \<Rightarrow> world \<Rightarrow> hover_event \<Rightarrow> world" where
  "step e w (MouseHover a c opts ev) = createMouseHandler e a c opts ev w"
| "step e w (TouchHover a c opts) = createTouchHandler e a c opts w"
| "step e w (TweenComplete t) = complete_tween e t w"

text \<open>An event that is not an enter transition: a leave, or the completion of a tween.\<close>

fun not_enter :: "hover_event \<Rightarrow> bool" where
  "not_enter (MouseHover a c opts ev) = (a = AnimOut)"
| "not_enter (TouchHover a c opts) = (a = AnimOut)"
| "not_enter (TweenComplete t) = True"

text \<open>A page on which no tween was made yet.\<close>

definition fresh_world :: "bool \<Rightarrow> world" where
  "fresh_world win =
     \<lparr>window_defined = win, created = 0, tweens = Map.empty, next_tween = 0,
      tweenMap = Map.empty, gsap_log = [], invoked = []\<rparr>"

definition running :: "world \<Rightarrow> nat \<Rightarrow> nat \<Rightarrow> bool" where
  "running w curtain t =
     (case tweens w t of None \<Rightarrow> False | Some tw \<Rightarrow> tw_active tw \<and> tw_target tw = curtain)"

definition kills :: "world \<Rightarrow> nat list" where
  "kills w = concat (map (\<lambda>c. case c of TweenKill t \<Rightarrow> [t] | _ \<Rightarrow> []) (gsap_log w))"

section \<open>The attachment (dirHover.utils.ts, dirHover.attach.ts)\<close>

text \<open>
  The element that \<open>createDirHoverElements\<close> configures, once
  \<open>document.createElement\<close> has made it with a new identity.
\<close>

definition new_element ::
  "browser \<Rightarrow> string \<Rightarrow> (string \<times> string) list \<Rightarrow> string option
     \<Rightarrow> (string \<times> style_value) list \<Rightarrow> string option \<Rightarrow> nat \<Rightarrow> dnode" where
  "new_element b tag attrs html styles className ident =
     (let a1 = setAttributes attrs [];
          a2 = (if \<not> truthy (map_of attrs ''aria-hidden'') \<and> tag = ''span''
                then setAttribute ''aria-hidden'' ''true'' a1 else a1);
          a3 = (case map_of attrs ''tabindex'' of
                  None \<Rightarrow> a2
                | Some v \<Rightarrow> if v \<noteq> [] then setAttribute ''tabindex'' v a2 else a2);
          kids = (case html of
                    None \<Rightarrow> []
                  | Some h \<Rightarrow> if h \<noteq> [] then parseHTML b tag h else []);
          st = assign_all styles [];
          cls = (case className of None \<Rightarrow> [] | Some c \<Rightarrow> c)
      in Element ident tag a3 st cls kids)"

definition createDirHoverElements ::
  "browser \<Rightarrow> string \<Rightarrow> (string \<times> string) list \<Rightarrow> string option
     \<Rightarrow> (string \<times> style_value) list \<Rightarrow> string option \<Rightarrow> world \<Rightarrow> dnode option \<times> world" where
  "createDirHoverElements b tag attrs html styles className w =
     (if \<not> window_defined w then (None, w)
      else (Some (new_element b tag attrs html styles className (created w)),
            w\<lparr>created := Suc (created w)\<rparr>))"

definition call_user :: "callback option \<Rightarrow> world \<Rightarrow> world" where
  "call_user cb w = (case cb of None \<Rightarrow> w | Some f \<Rightarrow> w\<lparr>invoked := invoked w @ [f]\<rparr>)"

text \<open>The four entries of \<open>handlers\<close>, over what the closures capture.\<close>

definition handler_mouseenter :: "engine \<Rightarrow> closure_env \<Rightarrow> mouse_event \<Rightarrow> world \<Rightarrow> world" where
  "handler_mouseenter e env ev w =
     call_user (onEnter (env_user env))
       (case env_curtain env of
          None \<Rightarrow> w
        | Some c \<Rightarrow> createMouseHandler e AnimIn c (env_options env) ev w)"

definition handler_mouseleave :: "engine \<Rightarrow> closure_env \<Rightarrow> mouse_event \<Rightarrow> world \<Rightarrow> world" where
  "handler_mouseleave e env ev w =
     call_user (onLeave (env_user env))
       (case env_curtain env of
          None \<Rightarrow> w
        | Some c \<Rightarrow> createMouseHandler e AnimOut c (env_options env) ev w)"

definition handler_touchstart :: "engine \<Rightarrow> closure_env \<Rightarrow> world \<Rightarrow> world" where
  "handler_touchstart e env w =
     call_user (onEnter (env_user env))
       (case env_curtain env of
          None \<Rightarrow> w
        | Some c \<Rightarrow> createTouchHandler e AnimIn c (env_options env) w)"

definition handler_touchend :: "engine \<Rightarrow> closure_env \<Rightarrow> world \<Rightarrow> world" where
  "handler_touchend e env w =
     call_user (onLeave (env_user env))
       (case env_curtain env of
          None \<Rightarrow> w
        | Some c \<Rightarrow> createTouchHandler e AnimOut c (env_options env) w)"

definition handler_names :: "string list" where
  "handler_names = [''mouseenter'', ''mouseleave'', ''touchstart'', ''touchend'']"

text \<open>What the cleanup closure captures.\<close>

record teardown_closure =
  td_env :: closure_env
  td_child :: "nat option"
  td_curtain :: "nat option"
  td_originalContent :: string

definition template :: "string js \<Rightarrow> string" where
  "template v = (case v of Undefined \<Rightarrow> ''undefined'' | Defined s \<Rightarrow> s)"

definition style_of :: "string js \<Rightarrow> style_value" where
  "style_of v = (case v of Undefined \<Rightarrow> StyleUndefined | Defined s \<Rightarrow> StyleStr s)"

definition spread_attrs ::
  "(string \<times> string) list \<Rightarrow> (string \<times> string) list option \<Rightarrow> (string \<times> string) list" where
  "spread_attrs base extra = assign_all (case extra of None \<Rightarrow> [] | Some xs \<Rightarrow> xs) base"

definition append_node :: "dnode option \<Rightarrow> host \<Rightarrow> host" where
  "append_node el node =
     (case el of None \<Rightarrow> node | Some e \<Rightarrow> node\<lparr>h_children := h_children node @ [e]\<rparr>)"

text \<open>
  The first block of the attachment: the host gets its role attribute, its two inline
  styles, the user's class (\<open>classList.add\<close>, which throws on a token with white
  space) and the user's attributes.
\<close>

definition setup_parent :: "user_options \<Rightarrow> host \<Rightarrow> js_error + host" where
  "setup_parent userOptions node =
     (let n1 = node\<lparr>h_attrs := setAttribute ''data-dirhover'' ''parent'' (h_attrs node)\<rparr>;
          n2 = n1\<lparr>h_style :=
                    assign_all [(''position'', StyleStr ''relative''),
                                (''overflow'', StyleStr ''hidden'')] (h_style n1)\<rparr>
      in case (case parentClass userOptions of
                 None \<Rightarrow> Inr n2
               | Some c \<Rightarrow>
                   if c = [] then Inr n2
                   else if (\<exists>ch \<in> set c. ascii_whitespace ch) then Inl InvalidCharacterError
                   else if c \<in> set (h_classList n2) then Inr n2
                   else Inr (n2\<lparr>h_classList := h_classList n2 @ [c]\<rparr>)) of
           Inl err \<Rightarrow> Inl err
         | Inr n3 \<Rightarrow>
             (case parentAttrs userOptions of
                None \<Rightarrow> Inr n3
              | Some as \<Rightarrow> Inr (n3\<lparr>h_attrs := setAttributes as (h_attrs n3)\<rparr>)))"

text \<open>
  The function that \<open>dirhover(userOptions)\<close> returns, applied to a host element.
  It returns nothing (\<open>None\<close>) where there is no \<open>window\<close>, and the cleanup closure
  otherwise; \<open>toString\<close> of an \<open>undefined\<close> opacity throws.
\<close>

definition attach ::
  "browser \<Rightarrow> user_options \<Rightarrow> host \<Rightarrow> world
     \<Rightarrow> js_error + (host \<times> world \<times> teardown_closure option)" where
  "attach b userOptions node w =
     (let opts = merge_options userOptions
      in if \<not> window_defined w then Inr (node, w, None)
         else
           (case setup_parent userOptions node of
              Inl err \<Rightarrow> Inl err
            | Inr n4 \<Rightarrow>
           (let originalContent = serializeHTML b (h_children n4);
                (child, w1) =
                  createDirHoverElements b ''span''
                    (spread_attrs [(''data-dirhover'', ''child'')] (childAttrs userOptions))
                    (Some originalContent)
                    [(''position'', StyleStr ''relative''), (''zIndex'', StyleStr ''1'')]
                    (childClass userOptions) w
            in case opacity (overlay opts) of
                 Undefined \<Rightarrow> Inl TypeError
               | Defined op \<Rightarrow>
                   (let overlayStyles =
                          [(''position'', StyleStr ''absolute''),
                           (''width'', StyleStr ''100%''),
                           (''height'', StyleStr ''100%''),
                           (''inset'', StyleStr ''0''),
                           (''background'',
                              StyleStr (''var(--dirhover-overlay-bg, ''
                                        @ template (background (overlay opts)) @ '')'')),
                           (''opacity'', StyleNum op),
                           (''mixBlendMode'', style_of (mixBlendMode (overlay opts)))];
                        (curtain, w2) =
                          createDirHoverElements b ''span''
                            (spread_attrs [(''data-dirhover'', ''overlay''), (''aria-hidden'', ''true'')]
                               (curtainAttrs userOptions))
                            None overlayStyles (curtainClass userOptions) w1;
                        w3 = (case curtain of
                                None \<Rightarrow> w2
                              | Some c \<Rightarrow>
                                  gsap_set (el_id c)
                                    (getPositionFromSide (touch_start (touchPosition opts))) w2);
                        n5 = n4\<lparr>h_children := []\<rparr>;
                        n6 = append_node curtain n5;
                        n7 = append_node child n6;
                        env = \<lparr>env_curtain = map_option el_id curtain, env_options = opts,
                               env_user = userOptions\<rparr>;
                        n8 = n7\<lparr>h_listeners :=
                                  h_listeners n7 @ map (\<lambda>name. (name, env)) handler_names\<rparr>
                    in Inr (n8, w3,
                            Some \<lparr>td_env = env, td_child = map_option el_id child,
                                  td_curtain = map_option el_id curtain,
                                  td_originalContent = originalContent\<rparr>)))))"

text \<open>\<open>if (el && node.contains(el)) node.removeChild(el)\<close>\<close>

definition remove_if_contained :: "nat option \<Rightarrow> dnode list \<Rightarrow> js_error + dnode list" where
  "remove_if_contained el cs =
     (case el of
        None \<Rightarrow> Inr cs
      | Some i \<Rightarrow> if node_contains cs i then removeChild cs i else Inr cs)"

text \<open>The cleanup closure, run on the host and the world as they are by then.\<close>

definition teardown ::
  "browser \<Rightarrow> teardown_closure \<Rightarrow> host \<Rightarrow> world \<Rightarrow> js_error + (host \<times> world)" where
  "teardown b td node w =
     (let n1 = node\<lparr>h_listeners :=
                      fold (\<lambda>name ls. remove1 (name, td_env td) ls) handler_names
                        (h_listeners node)\<rparr>;
          w1 = (case td_curtain td of
                  None \<Rightarrow> w
                | Some c \<Rightarrow> w\<lparr>tweenMap := (tweenMap w)(c := None)\<rparr>)
      in case remove_if_contained (td_child td) (h_children n1) of
           Inl err \<Rightarrow> Inl err
         | Inr cs1 \<Rightarrow>
             (case remove_if_contained (td_curtain td) cs1 of
                Inl err \<Rightarrow> Inl err
              | Inr cs2 \<Rightarrow>
                  Inr (n1\<lparr>h_children := parseHTML b (h_tag n1) (td_originalContent td)\<rparr>, w1)))"


section \<open>Examples\<close>

text \<open>The default argument of \<open>dirhover\<close>, \<open>{}\<close>.\<close>

definition no_options :: user_options where
  "no_options =
     \<lparr>u_animation = None, u_overlay = None, u_touchPosition = None,
      parentAttrs = None, childAttrs = None, curtainAttrs = None,
      parentClass = None, childClass = None, curtainClass = None,
      onEnter = None, onLeave = None\<rparr>"

text \<open>
  A browser, described as far as the examples go. Text and elements without attributes
  serialise as they are written (the texts of the examples need no escaping). The parser
  drops the line feed that directly follows a \<open><pre>\<close> start tag, as the HTML standard
  has it, and reads markup without tags as one text node.
\<close>

fun example_serialize_node :: "dnode \<Rightarrow> string" where
  "example_serialize_node (Text s) = s"
| "example_serialize_node (Other tag attrs ks) =
     ''<'' @ tag @ ''>'' @ concat (map example_serialize_node ks) @ ''</'' @ tag @ ''>''"
| "example_serialize_node (Element i tag attrs st cls ks) =
     ''<'' @ tag @ ''>'' @ concat (map example_serialize_node ks) @ ''</'' @ tag @ ''>''"

definition pre_markup :: string where
  "pre_markup = ''<pre>'' @ [CHR 0x0A] @ ''x</pre>''"

definition example_parse :: "string \<Rightarrow> string \<Rightarrow> dnode list" where
  "example_parse context_tag html =
     (if html = pre_markup \<or> html = ''<pre>x</pre>'' then [Other ''pre'' [] [Text ''x'']]
      else if html = [] then []
      else [Text html])"

definition example_browser :: browser where
  "example_browser =
     \<lparr>parseHTML = example_parse,
      serializeHTML = (\<lambda>cs. concat (map example_serialize_node cs))\<rparr>"

text \<open>A host with a text, and one whose \<open>pre\<close> element has a text that begins with a line feed.\<close>

definition example_host :: host where
  "example_host =
     \<lparr>h_tag = ''div'', h_attrs = [(''id'', ''card'')], h_style = [], h_classList = [],
      h_children = [Text ''Hi''], h_listeners = []\<rparr>"


text \<open>
  An engine that completes a tween inside the call that creates it exactly when its
  duration is zero, and the options \<open>{ animation: { duration: 0 } }\<close>.
\<close>

definition zero_engine :: engine where
  "zero_engine = \<lparr>immediate = (\<lambda>vars. duration vars = Defined 0)\<rparr>"

definition zero_duration :: user_options where
  "zero_duration =
     no_options\<lparr>u_animation := Some \<lparr>pa_duration = Some (Defined 0), pa_ease = None\<rparr>\<rparr>"

section \<open>Properties of the side detector\<close>

lemma js_less_irrefl [simp]: "\<not> js_less a a"
  by (cases a) (simp_all add: js_less_def)

lemma js_less_Num [simp]: "js_less (Num r) (Num s) = (r < s)"
  by (simp add: js_less_def)

lemma detectSide_pick:
  "detectSide event rect =
     pick (js_minus (clientX event) (Num (rect_left rect)))
       (js_minus (rect_width rect) (js_minus (clientX event) (Num (rect_left rect))))
       (js_minus (clientY event) (Num (rect_top rect)))
       (js_minus (rect_height rect) (js_minus (clientY event) (Num (rect_top rect))))"
  by (simp add: detectSide_def distances_def closer_def pick_def Let_def)

lemma pick_least:
  "(pick l r t b = ''left'' \<and> \<not> js_less r l \<and> \<not> js_less t l \<and> \<not> js_less b l) \<or>
   (pick l r t b = ''right'' \<and> js_less r l \<and> \<not> js_less t r \<and> \<not> js_less b r) \<or>
   (pick l r t b = ''top'' \<and> js_less t l \<and> js_less t r \<and> \<not> js_less b t) \<or>
   (pick l r t b = ''bottom'' \<and> js_less b l \<and> js_less b r \<and> js_less b t)"
  by (cases l; cases r; cases t; cases b) (auto simp: pick_def js_less_def Let_def)







text \<open>
  Claim C9, as stated, fails for the same reason as C1: the rule is applied to the
  distances the code computes, not to the exact ones. The pointer \<open>(2^54, -2^54)\<close> is
  outside the rectangle at the origin of width and height 1. The exact distance
  \<open>1 - 2^54\<close> to the right edge is greater than the distance \<open>-2^54\<close> to the top edge,
  so the rule on the exact distances gives top; the subtraction rounds \<open>1 - 2^54\<close> to
  \<open>-2^54\<close>, the two computed distances are equal, and the code returns right.
\<close>

theorem detectSide_outside_rounding_counterexample:
  "is_double (2 ^ 54) \<and> is_double (- (2 ^ 54)) \<and> is_double 0 \<and> is_double 1 \<and>
   detectSide
     \<lparr>clientX = 2 ^ 54, clientY = - (2 ^ 54),
      currentTargetRect = \<lparr>rect_left = 0, rect_top = 0, rect_width = 1, rect_height = 1\<rparr>\<rparr>
     \<lparr>rect_left = 0, rect_top = 0, rect_width = 1, rect_height = 1\<rparr> = ''right'' \<and>
   nearest_edge (2 ^ 54 - 0) (- (2 ^ 54) - 0) 1 1 = ''top''"
  by code_simp

text \<open>
  Claim C9, amended. \<open>detectSide\<close> is total: for every pointer and every rectangle
  with finite coordinates, a pointer outside the rectangle and a rectangle of zero or
  negative width or height included, it returns one of the four edge names and does not
  throw. The result is chosen by the minimum rule on the distances as the code computes
  them in double arithmetic, which may be negative or, on overflow, infinite: the
  result's computed distance is the least, and every edge before it in the order left,
  right, top, bottom is strictly farther.
\<close>

theorem detectSide_total:
  "let x = js_minus (clientX event) (Num (rect_left rect));
       r = js_minus (rect_width rect) x;
       y = js_minus (clientY event) (Num (rect_top rect));
       b = js_minus (rect_height rect) y
   in (detectSide event rect = ''left'' \<and> \<not> js_less r x \<and> \<not> js_less y x \<and> \<not> js_less b x) \<or>
      (detectSide event rect = ''right'' \<and> js_less r x \<and> \<not> js_less y r \<and> \<not> js_less b r) \<or>
      (detectSide event rect = ''top'' \<and> js_less y x \<and> js_less y r \<and> \<not> js_less b y) \<or>
      (detectSide event rect = ''bottom'' \<and> js_less b x \<and> js_less b r \<and> js_less b y)"
  unfolding Let_def detectSide_pick by (rule pick_least)

section \<open>Properties of the position mapper\<close>

text \<open>
  Claim C2. \<open>getPositionFromSide\<close> maps left to (-101, 0), right to (101, 0), top to
  (0, -101), bottom to (0, 101) and center to (0, 0); every other input gets the offset
  of bottom, (0, 101).
\<close>

theorem getPositionFromSide_table:
  "getPositionFromSide ''left'' = \<lparr>xPercent = -101, yPercent = 0\<rparr> \<and>
   getPositionFromSide ''right'' = \<lparr>xPercent = 101, yPercent = 0\<rparr> \<and>
   getPositionFromSide ''top'' = \<lparr>xPercent = 0, yPercent = -101\<rparr> \<and>
   getPositionFromSide ''bottom'' = \<lparr>xPercent = 0, yPercent = 101\<rparr> \<and>
   getPositionFromSide ''center'' = \<lparr>xPercent = 0, yPercent = 0\<rparr> \<and>
   (\<forall>side. side \<notin> {''left'', ''right'', ''top'', ''bottom'', ''center''} \<longrightarrow>
      getPositionFromSide side = \<lparr>xPercent = 0, yPercent = 101\<rparr> \<and>
      getPositionFromSide side = getPositionFromSide ''bottom'')"
  by (simp add: getPositionFromSide_def)

theorem getPositionFromSide_table_witness:
  "''diagonal'' \<notin> {''left'', ''right'', ''top'', ''bottom'', ''center''} \<and>
   getPositionFromSide ''diagonal'' = \<lparr>xPercent = 0, yPercent = 101\<rparr> \<and>
   getPositionFromSide ''diagonal'' = getPositionFromSide ''bottom''"
  using getPositionFromSide_table by simp

section \<open>Facts about the document model\<close>




lemma removeChild_not_child:
  "\<not> (\<exists>k \<in> set cs. is_node i k) \<Longrightarrow> removeChild cs i = Inl NotFoundError"
  by (simp add: removeChild_def)






lemma new_element_id [simp]:
  "el_id (new_element b tag attrs html styles cls i) = i"
  "is_node j (new_element b tag attrs html styles cls i) = (j = i)"
  by (auto simp: new_element_def Let_def is_node_def)















section \<open>Properties of the lifecycle\<close>







text \<open>
  Claim C6. Without a window the attachment returns without throwing and changes
  nothing: no node is created, no listener is registered, and it returns no teardown;
  \<open>createDirHoverElements\<close> returns no element and creates none.
\<close>

theorem attach_without_window:
  "\<not> window_defined w \<Longrightarrow>
   attach b userOptions node w = Inr (node, w, None) \<and>
   createDirHoverElements b tag attrs html styles className w = (None, w)"
  by (simp add: attach_def createDirHoverElements_def)

theorem attach_without_window_witness:
  "\<not> window_defined (fresh_world False) \<and>
   attach example_browser no_options example_host (fresh_world False)
     = Inr (example_host, fresh_world False, None) \<and>
   createDirHoverElements example_browser ''span'' [] None [] None (fresh_world False)
     = (None, fresh_world False)"
  using attach_without_window
    [of "fresh_world False" example_browser no_options example_host "''span''" "[]" None "[]" None]
  by (simp add: fresh_world_def)

section \<open>Facts about the engine model and the tween table\<close>

lemma gsap_to_clear:
  "gsap_to e c q v (ClearHandle c') w =
     (next_tween w,
      (if immediate e v
       then w\<lparr>tweens := (tweens w)(next_tween w \<mapsto>
                 \<lparr>tw_target = c, tw_from = None, tw_to = q, tw_vars = v,
                  tw_onComplete = ClearHandle c', tw_active = False\<rparr>),
              next_tween := Suc (next_tween w),
              gsap_log := gsap_log w @ [GsapTo (next_tween w) c q v],
              tweenMap := (tweenMap w)(c' := None)\<rparr>
       else w\<lparr>tweens := (tweens w)(next_tween w \<mapsto>
                 \<lparr>tw_target = c, tw_from = None, tw_to = q, tw_vars = v,
                  tw_onComplete = ClearHandle c', tw_active = True\<rparr>),
              next_tween := Suc (next_tween w),
              gsap_log := gsap_log w @ [GsapTo (next_tween w) c q v]\<rparr>))"
  by (simp add: Let_def)

lemma gsap_fromTo_clear:
  "gsap_fromTo e c p q v (ClearHandle c') w =
     (next_tween w,
      (if immediate e v
       then w\<lparr>tweens := (tweens w)(next_tween w \<mapsto>
                 \<lparr>tw_target = c, tw_from = Some p, tw_to = q, tw_vars = v,
                  tw_onComplete = ClearHandle c', tw_active = False\<rparr>),
              next_tween := Suc (next_tween w),
              gsap_log := gsap_log w @ [GsapFromTo (next_tween w) c p q v],
              tweenMap := (tweenMap w)(c' := None)\<rparr>
       else w\<lparr>tweens := (tweens w)(next_tween w \<mapsto>
                 \<lparr>tw_target = c, tw_from = Some p, tw_to = q, tw_vars = v,
                  tw_onComplete = ClearHandle c', tw_active = True\<rparr>),
              next_tween := Suc (next_tween w),
              gsap_log := gsap_log w @ [GsapFromTo (next_tween w) c p q v]\<rparr>))"
  by (simp add: gsap_fromTo_def Let_def)

lemma run_StartOut:
  "run_onComplete e (StartOut c pos vars) w =
     (snd (gsap_to e c pos vars (ClearHandle c) w))\<lparr>tweenMap :=
        (tweenMap (snd (gsap_to e c pos vars (ClearHandle c) w)))(c \<mapsto> next_tween w)\<rparr>"
  by (simp add: Let_def del: gsap_to.simps add: gsap_to_clear)

declare gsap_to.simps [simp del] run_onComplete.simps(2) [simp del] run_StartOut [simp]

lemma clear_fields [simp]:
  "fst (gsap_to e c q v (ClearHandle c') w) = next_tween w"
  "gsap_log (snd (gsap_to e c q v (ClearHandle c') w)) = gsap_log w @ [GsapTo (next_tween w) c q v]"
  "invoked (snd (gsap_to e c q v (ClearHandle c') w)) = invoked w"
  "next_tween (snd (gsap_to e c q v (ClearHandle c') w)) = Suc (next_tween w)"
  "fst (gsap_fromTo e c p q v (ClearHandle c') w) = next_tween w"
  "gsap_log (snd (gsap_fromTo e c p q v (ClearHandle c') w)) =
     gsap_log w @ [GsapFromTo (next_tween w) c p q v]"
  "invoked (snd (gsap_fromTo e c p q v (ClearHandle c') w)) = invoked w"
  "next_tween (snd (gsap_fromTo e c p q v (ClearHandle c') w)) = Suc (next_tween w)"
  by (simp_all add: gsap_to_clear gsap_fromTo_clear)

lemma kills_simps [simp]:
  "kills (w\<lparr>tweenMap := m\<rparr>) = kills w"
  "kills (w\<lparr>tweens := ts\<rparr>) = kills w"
  "kills (w\<lparr>invoked := i\<rparr>) = kills w"
  "kills (snd (gsap_to e c q v (ClearHandle c') w)) = kills w"
  "kills (snd (gsap_fromTo e c p q v (ClearHandle c') w)) = kills w"
  "kills (tween_eventCallback t cb w) = kills w"
  "kills (tween_kill t w) = kills w @ [t]"
  by (simp_all add: kills_def tween_eventCallback_def tween_kill_def)

lemma tween_kill_fields [simp]:
  "tweenMap (tween_kill t w) = tweenMap w"
  "next_tween (tween_kill t w) = next_tween w"
  "invoked (tween_kill t w) = invoked w"
  "gsap_log (tween_kill t w) = gsap_log w @ [TweenKill t]"
  by (simp_all add: tween_kill_def)

lemma tween_eventCallback_fields [simp]:
  "tweenMap (tween_eventCallback t cb w) = tweenMap w"
  "next_tween (tween_eventCallback t cb w) = next_tween w"
  "invoked (tween_eventCallback t cb w) = invoked w"
  "gsap_log (tween_eventCallback t cb w) = gsap_log w @ [TweenEventCallback t cb]"
  by (simp_all add: tween_eventCallback_def)

lemma invoked_run_onComplete [simp]: "invoked (run_onComplete e cb w) = invoked w"
  by (cases cb) (simp_all add: run_StartOut)

lemma kills_run_onComplete [simp]: "kills (run_onComplete e cb w) = kills w"
  by (cases cb) (simp_all add: run_StartOut)

lemma invoked_complete_tween [simp]: "invoked (complete_tween e t w) = invoked w"
  by (simp add: complete_tween_def split: option.split)

lemma kills_complete_tween [simp]: "kills (complete_tween e t w) = kills w"
  by (simp add: complete_tween_def split: option.split)

lemma invoked_dirHoverHandler [simp]:
  "invoked (dirHoverHandler e a curtain opts g ev w) = invoked w"
  by (simp add: dirHoverHandler_def Let_def split_def split: option.split)

lemma kills_dirHoverHandler_out [simp]:
  "kills (dirHoverHandler e AnimOut curtain opts g ev w) = kills w"
  by (simp add: dirHoverHandler_def Let_def split_def split: option.split)

lemma kills_teardown: "teardown b td node w = Inr (node', w') \<Longrightarrow> kills w' = kills w"
  by (auto simp: teardown_def Let_def split: sum.splits option.splits)

lemma kills_not_enter: "not_enter ev \<Longrightarrow> kills (step e w ev) = kills w"
  by (cases ev) (simp_all add: createMouseHandler_def createTouchHandler_def)

lemma running_tweenMap [simp]: "running (w\<lparr>tweenMap := m\<rparr>) c t = running w c t"
  by (simp add: running_def)

lemma running_eventCallback [simp]:
  "running (tween_eventCallback t cb w) c t' = running w c t'"
  by (auto simp: running_def tween_eventCallback_def split: option.splits)

lemma dirHoverHandler_in_some:
  "tweenMap w c = Some t \<Longrightarrow>
   dirHoverHandler e AnimIn (Some c) opts g ev w =
     (snd (gsap_fromTo e c (getPositionFromSide (g AnimIn ev)) \<lparr>xPercent = 0, yPercent = 0\<rparr>
             (animation opts) (ClearHandle c) (tween_kill t w)))
       \<lparr>tweenMap :=
          (tweenMap (snd (gsap_fromTo e c (getPositionFromSide (g AnimIn ev))
             \<lparr>xPercent = 0, yPercent = 0\<rparr> (animation opts) (ClearHandle c) (tween_kill t w))))
          (c \<mapsto> next_tween w)\<rparr>"
  by (simp add: dirHoverHandler_def Let_def split_def)

lemma dirHoverHandler_out_some:
  "tweenMap w c = Some t \<Longrightarrow>
   dirHoverHandler e AnimOut (Some c) opts g ev w =
     tween_eventCallback t (StartOut c (getPositionFromSide (g AnimOut ev)) (animation opts)) w"
  by (simp add: dirHoverHandler_def Let_def)

lemma dirHoverHandler_out_none:
  "tweenMap w c = None \<Longrightarrow>
   dirHoverHandler e AnimOut (Some c) opts g ev w =
     (snd (gsap_to e c (getPositionFromSide (g AnimOut ev)) (animation opts) (ClearHandle c) w))
       \<lparr>tweenMap :=
          (tweenMap (snd (gsap_to e c (getPositionFromSide (g AnimOut ev)) (animation opts)
             (ClearHandle c) w)))(c \<mapsto> next_tween w)\<rparr>"
  by (simp add: dirHoverHandler_def Let_def split_def)

text \<open>
  An enter transition on an overlay with a stored tween: the kill comes before the start,
  and the new tween is stored. Where the engine does not complete the new tween inside
  \<open>fromTo\<close>, it is running, and its later completion clears the table entry.
\<close>

lemma enter_on_handle:
  fixes e :: engine and opts :: options and g :: "action_animation \<Rightarrow> 'e \<Rightarrow> string"
    and ev :: 'e
  assumes h: "tweenMap w c = Some t"
  defines "w' \<equiv> dirHoverHandler e AnimIn (Some c) opts g ev w"
  shows "gsap_log w' =
           gsap_log w @ [TweenKill t,
             GsapFromTo (next_tween w) c (getPositionFromSide (g AnimIn ev))
               \<lparr>xPercent = 0, yPercent = 0\<rparr> (animation opts)]"
    and "tweenMap w' c = Some (next_tween w)"
    and "\<not> immediate e (animation opts) \<Longrightarrow> running w' c (next_tween w)"
    and "\<not> immediate e (animation opts) \<Longrightarrow>
         tweenMap (complete_tween e (next_tween w) w') c = None"
    and "immediate e (animation opts) \<Longrightarrow> \<not> running w' c (next_tween w)"
    and "immediate e (animation opts) \<Longrightarrow> complete_tween e (next_tween w) w' = w'"
  unfolding w'_def dirHoverHandler_in_some [OF h]
  by (simp_all add: gsap_fromTo_clear running_def complete_tween_def tween_kill_def)

text \<open>A leave transition on a stored, running tween, and the completion of that tween.\<close>

lemma leave_on_running:
  fixes e :: engine and opts :: options and g :: "action_animation \<Rightarrow> 'e \<Rightarrow> string"
    and ev :: 'e
  assumes h: "tweenMap w c = Some t" and run: "running w c t"
  defines "pos \<equiv> getPositionFromSide (g AnimOut ev)"
  defines "w' \<equiv> dirHoverHandler e AnimOut (Some c) opts g ev w"
  shows "gsap_log w' = gsap_log w @ [TweenEventCallback t (StartOut c pos (animation opts))]"
    and "next_tween w' = next_tween w"
    and "tweenMap w' c = Some t"
    and "running w' c t"
    and "gsap_log (complete_tween e t w') =
           gsap_log w' @ [GsapTo (next_tween w) c pos (animation opts)]"
    and "tweenMap (complete_tween e t w') c = Some (next_tween w)"
proof -
  from run obtain tw where tw: "tweens w t = Some tw" "tw_active tw" "tw_target tw = c"
    by (auto simp: running_def split: option.splits)
  have eq: "w' = tween_eventCallback t (StartOut c pos (animation opts)) w"
    unfolding w'_def pos_def by (rule dirHoverHandler_out_some [OF h])
  show "gsap_log w' = gsap_log w @ [TweenEventCallback t (StartOut c pos (animation opts))]"
    by (simp add: eq)
  show "next_tween w' = next_tween w" by (simp add: eq)
  show "tweenMap w' c = Some t" using h by (simp add: eq)
  show "running w' c t" using run by (simp add: eq)
  have tw': "tweens w' t = Some (tw\<lparr>tw_onComplete := StartOut c pos (animation opts)\<rparr>)"
    using tw by (simp add: eq tween_eventCallback_def)
  have eq2: "complete_tween e t w' = run_onComplete e (StartOut c pos (animation opts))
               (w'\<lparr>tweens := (tweens w')(t \<mapsto>
                  tw\<lparr>tw_onComplete := StartOut c pos (animation opts), tw_active := False\<rparr>)\<rparr>)"
    using tw' tw(2) by (simp add: complete_tween_def)
  show "gsap_log (complete_tween e t w') =
           gsap_log w' @ [GsapTo (next_tween w) c pos (animation opts)]"
    by (simp add: eq2 run_StartOut) (simp add: eq)
  show "tweenMap (complete_tween e t w') c = Some (next_tween w)"
    by (simp add: eq2 run_StartOut) (simp add: eq)
qed

lemma leave_without_handle:
  fixes e :: engine and opts :: options and g :: "action_animation \<Rightarrow> 'e \<Rightarrow> string"
    and ev :: 'e
  assumes h: "tweenMap w c = None"
  defines "pos \<equiv> getPositionFromSide (g AnimOut ev)"
  defines "w' \<equiv> dirHoverHandler e AnimOut (Some c) opts g ev w"
  shows "gsap_log w' = gsap_log w @ [GsapTo (next_tween w) c pos (animation opts)]"
    and "tweenMap w' c = Some (next_tween w)"
  unfolding w'_def pos_def dirHoverHandler_out_none [OF h] by simp_all

section \<open>Properties of the listeners\<close>

text \<open>
  Claim C8. Each of the four listeners (mouse enter and leave, touch start and end)
  calls the user's \<open>onEnter\<close> or \<open>onLeave\<close>, when there is one, exactly once before it
  returns, whatever the state of the tweens and whether there is an overlay or not;
  the completion of a tween calls no user callback.
\<close>

theorem listeners_call_user_callback_once:
  "invoked (handler_mouseenter e env ev w) =
     invoked w @ (case onEnter (env_user env) of None \<Rightarrow> [] | Some f \<Rightarrow> [f]) \<and>
   invoked (handler_mouseleave e env ev w) =
     invoked w @ (case onLeave (env_user env) of None \<Rightarrow> [] | Some f \<Rightarrow> [f]) \<and>
   invoked (handler_touchstart e env w) =
     invoked w @ (case onEnter (env_user env) of None \<Rightarrow> [] | Some f \<Rightarrow> [f]) \<and>
   invoked (handler_touchend e env w) =
     invoked w @ (case onLeave (env_user env) of None \<Rightarrow> [] | Some f \<Rightarrow> [f]) \<and>
   invoked (complete_tween e t w) = invoked w"
  by (simp add: handler_mouseenter_def handler_mouseleave_def handler_touchstart_def
      handler_touchend_def call_user_def createMouseHandler_def createTouchHandler_def
      split: option.split)

section \<open>Properties of the merge of the options\<close>

lemma spread_as_specified:
  "u \<noteq> Some Undefined \<Longrightarrow> spread (Defined d) u = merged_as_specified d u"
  by (auto simp: spread_def merged_as_specified_def split: option.splits js.splits)

lemma nullish_as_specified: "Defined (nullish u d) = merged_as_specified d u"
  by (auto simp: nullish_def merged_as_specified_def split: option.splits js.splits)

text \<open>
  Claim C7, at the input \<open>{ overlay: { opacity: undefined } }\<close>. The merged opacity is
  \<open>undefined\<close>, where the claim asks for the default 1 of a field that got no value, and
  the attachment then throws on \<open>opacity.toString()\<close>; the same input for
  \<open>touchPosition.start\<close> does get the default.
\<close>

theorem merge_options_undefined_opacity:
  "opacity (overlay (merge_options
      (no_options\<lparr>u_overlay :=
         Some \<lparr>po_background = None, po_opacity = Some Undefined, po_mixBlendMode = None\<rparr>\<rparr>)))
     = Undefined \<and>
   merged_as_specified 1 (Some (Undefined :: real js)) = Defined 1 \<and>
   attach b
     (no_options\<lparr>u_overlay :=
         Some \<lparr>po_background = None, po_opacity = Some Undefined, po_mixBlendMode = None\<rparr>\<rparr>)
     node (fresh_world True) = Inl TypeError \<and>
   touch_start (touchPosition (merge_options
      (no_options\<lparr>u_touchPosition := Some \<lparr>pt_start = Some Undefined, pt_end = None\<rparr>\<rparr>)))
     = ''bottom''"
  by (simp add: merge_options_def no_options_def defaultOptions_def spread_def nullish_def
      merged_as_specified_def attach_def setup_parent_def fresh_world_def Let_def split_def)

text \<open>Where no present field is \<open>undefined\<close>, the merge is the one the claim describes.\<close>

lemma merge_options_as_specified:
  assumes "u_animation uo = Some a" "u_overlay uo = Some ov" "u_touchPosition uo = Some tp"
    and "pa_duration a \<noteq> Some Undefined" "pa_ease a \<noteq> Some Undefined"
    and "po_background ov \<noteq> Some Undefined" "po_opacity ov \<noteq> Some Undefined"
      "po_mixBlendMode ov \<noteq> Some Undefined"
  shows "duration (animation (merge_options uo)) = merged_as_specified 0.125 (pa_duration a)"
    and "ease (animation (merge_options uo)) = merged_as_specified ''power2.out'' (pa_ease a)"
    and "background (overlay (merge_options uo)) =
           merged_as_specified ''rgba(30, 30, 40, 0.12)'' (po_background ov)"
    and "opacity (overlay (merge_options uo)) = merged_as_specified 1 (po_opacity ov)"
    and "mixBlendMode (overlay (merge_options uo)) =
           merged_as_specified ''normal'' (po_mixBlendMode ov)"
    and "Defined (touch_start (touchPosition (merge_options uo))) =
           merged_as_specified ''bottom'' (pt_start tp)"
    and "Defined (touch_end (touchPosition (merge_options uo))) =
           merged_as_specified ''top'' (pt_end tp)"
  using assms
  by (simp_all add: merge_options_def defaultOptions_def spread_as_specified
      nullish_as_specified)

lemma merge_options_default:
  "merge_options no_options = defaultOptions"
  by (simp add: merge_options_def no_options_def defaultOptions_def nullish_def)

section \<open>Properties of the animation state machine\<close>

lemma zero_duration_options:
  "animation (merge_options zero_duration) = \<lparr>duration = Defined 0, ease = Defined ''power2.out''\<rparr>"
  "touchPosition (merge_options zero_duration) = \<lparr>touch_start = ''bottom'', touch_end = ''top''\<rparr>"
  "immediate zero_engine (animation (merge_options zero_duration))"
  "\<not> immediate zero_engine (animation defaultOptions)"
  by (simp_all add: merge_options_def zero_duration_def no_options_def defaultOptions_def
      spread_def nullish_def zero_engine_def)

text \<open>
  Claim C4, at the options \<open>{ animation: { duration: 0 } }\<close> and a touch start on a
  fresh page, with an engine that completes a tween of duration zero inside the call
  that creates it. The in tween completes inside \<open>fromTo\<close> and its callback clears
  the table entry before the handler stores the tween: the finished tween stays in the
  table, no later completion clears it, and a leave transition then only sets a callback
  on the finished tween, so the out tween is never started.
\<close>

theorem enter_zero_duration_keeps_handle:
  "tweenMap
     (createTouchHandler zero_engine AnimIn 7 (merge_options zero_duration) (fresh_world True)) 7
     = Some 0 \<and>
   \<not> running
     (createTouchHandler zero_engine AnimIn 7 (merge_options zero_duration) (fresh_world True))
     7 0 \<and>
   gsap_log
     (createTouchHandler zero_engine AnimIn 7 (merge_options zero_duration) (fresh_world True))
     = [GsapFromTo 0 7 \<lparr>xPercent = 0, yPercent = 101\<rparr> \<lparr>xPercent = 0, yPercent = 0\<rparr>
          \<lparr>duration = Defined 0, ease = Defined ''power2.out''\<rparr>] \<and>
   tweenMap
     (complete_tween zero_engine 0
        (createTouchHandler zero_engine AnimIn 7 (merge_options zero_duration)
           (fresh_world True))) 7
     = Some 0 \<and>
   gsap_log
     (complete_tween zero_engine 0
        (createTouchHandler zero_engine AnimOut 7 (merge_options zero_duration)
           (createTouchHandler zero_engine AnimIn 7 (merge_options zero_duration)
              (fresh_world True))))
     = [GsapFromTo 0 7 \<lparr>xPercent = 0, yPercent = 101\<rparr> \<lparr>xPercent = 0, yPercent = 0\<rparr>
          \<lparr>duration = Defined 0, ease = Defined ''power2.out''\<rparr>,
        TweenEventCallback 0
          (StartOut 7 \<lparr>xPercent = 0, yPercent = -101\<rparr>
             \<lparr>duration = Defined 0, ease = Defined ''power2.out''\<rparr>)]"
  by (simp add: createTouchHandler_def dirHoverHandler_def Let_def split_def
      gsap_fromTo_clear zero_duration_options zero_engine_def fresh_world_def
      getPositionFromSide_def running_def complete_tween_def tween_eventCallback_def)

text \<open>
  Claim C5. A leave transition never kills a tween. On an overlay whose stored tween is
  running, it starts nothing: it replaces the completion callback of that tween, which
  goes on running, and the out tween is started, and stored, when that completion fires.
  On an overlay with no stored tween it starts the out tween at once. No leave
  transition, no completion of a tween and no teardown kills a tween: only an enter
  transition does.
\<close>

theorem leave_chains_after_completion:
  "let pos = getPositionFromSide (getDirection AnimOut event);
       w' = dirHoverHandler e AnimOut (Some c) opts getDirection event w
   in (tweenMap w c = Some t \<and> running w c t \<longrightarrow>
         gsap_log w' =
           gsap_log w @ [TweenEventCallback t (StartOut c pos (animation opts))] \<and>
         next_tween w' = next_tween w \<and>
         tweenMap w' c = Some t \<and>
         running w' c t \<and>
         gsap_log (complete_tween e t w') =
           gsap_log w' @ [GsapTo (next_tween w) c pos (animation opts)] \<and>
         tweenMap (complete_tween e t w') c = Some (next_tween w)) \<and>
      (tweenMap w c = None \<longrightarrow>
         gsap_log w' = gsap_log w @ [GsapTo (next_tween w) c pos (animation opts)] \<and>
         tweenMap w' c = Some (next_tween w)) \<and>
      kills w' = kills w \<and>
      (\<forall>ev. not_enter ev \<longrightarrow> kills (step e w ev) = kills w) \<and>
      (\<forall>b td node node' w2. teardown b td node w = Inr (node', w2) \<longrightarrow> kills w2 = kills w)"
  unfolding Let_def
proof (intro conjI allI impI, goal_cases)
  case 1
  then have h: "tweenMap w c = Some t" and r: "running w c t" by simp_all
  show ?case by (rule leave_on_running(1) [OF h r])
next
  case 2
  then have h: "tweenMap w c = Some t" and r: "running w c t" by simp_all
  show ?case by (rule leave_on_running(2) [OF h r])
next
  case 3
  then have h: "tweenMap w c = Some t" and r: "running w c t" by simp_all
  show ?case by (rule leave_on_running(3) [OF h r])
next
  case 4
  then have h: "tweenMap w c = Some t" and r: "running w c t" by simp_all
  show ?case by (rule leave_on_running(4) [OF h r])
next
  case 5
  then have h: "tweenMap w c = Some t" and r: "running w c t" by simp_all
  show ?case by (rule leave_on_running(5) [OF h r])
next
  case 6
  then have h: "tweenMap w c = Some t" and r: "running w c t" by simp_all
  show ?case by (rule leave_on_running(6) [OF h r])
next
  case 7
  then show ?case by (rule leave_without_handle(1))
next
  case 8
  then show ?case by (rule leave_without_handle(2))
next
  case 9
  show ?case by (rule kills_dirHoverHandler_out)
next
  case (10 ev)
  then show ?case by (rule kills_not_enter)
next
  case (11 b td node node' w2)
  then show ?case by (rule kills_teardown)
qed

theorem leave_chains_after_completion_witness:
  "tweenMap (createTouchHandler zero_engine AnimIn 7 defaultOptions (fresh_world True)) 7 = Some 0 \<and>
   running (createTouchHandler zero_engine AnimIn 7 defaultOptions (fresh_world True)) 7 0 \<and>
   gsap_log (dirHoverHandler zero_engine AnimOut (Some 7) defaultOptions (\<lambda>a ev. ''top'') ()
      (createTouchHandler zero_engine AnimIn 7 defaultOptions (fresh_world True))) =
     [GsapFromTo 0 7 \<lparr>xPercent = 0, yPercent = 101\<rparr> \<lparr>xPercent = 0, yPercent = 0\<rparr>
        (animation defaultOptions),
      TweenEventCallback 0
        (StartOut 7 \<lparr>xPercent = 0, yPercent = -101\<rparr> (animation defaultOptions))] \<and>
   gsap_log (complete_tween zero_engine 0
      (dirHoverHandler zero_engine AnimOut (Some 7) defaultOptions (\<lambda>a ev. ''top'') ()
        (createTouchHandler zero_engine AnimIn 7 defaultOptions (fresh_world True)))) =
     [GsapFromTo 0 7 \<lparr>xPercent = 0, yPercent = 101\<rparr> \<lparr>xPercent = 0, yPercent = 0\<rparr>
        (animation defaultOptions),
      TweenEventCallback 0
        (StartOut 7 \<lparr>xPercent = 0, yPercent = -101\<rparr> (animation defaultOptions)),
      GsapTo 1 7 \<lparr>xPercent = 0, yPercent = -101\<rparr> (animation defaultOptions)] \<and>
   tweenMap (complete_tween zero_engine 0
      (dirHoverHandler zero_engine AnimOut (Some 7) defaultOptions (\<lambda>a ev. ''top'') ()
        (createTouchHandler zero_engine AnimIn 7 defaultOptions (fresh_world True)))) 7 = Some 1"
proof -
  define W where "W = createTouchHandler zero_engine AnimIn 7 defaultOptions (fresh_world True)"
  have h: "tweenMap W 7 = Some 0" and r: "running W 7 0" and n: "next_tween W = 1"
    and l: "gsap_log W =
              [GsapFromTo 0 7 \<lparr>xPercent = 0, yPercent = 101\<rparr> \<lparr>xPercent = 0, yPercent = 0\<rparr>
                 (animation defaultOptions)]"
    by (simp_all add: W_def createTouchHandler_def dirHoverHandler_def Let_def split_def
        gsap_fromTo_clear zero_engine_def fresh_world_def getPositionFromSide_def
        running_def defaultOptions_def)
  note T = leave_chains_after_completion
    [of "\<lambda>a ev. ''top''" "()" zero_engine 7 defaultOptions W 0,
      unfolded Let_def, THEN conjunct1, rule_format, OF conjI, OF h r]
  from T have
    "gsap_log (dirHoverHandler zero_engine AnimOut (Some 7) defaultOptions (\<lambda>a ev. ''top'') () W) =
       gsap_log W @ [TweenEventCallback 0
         (StartOut 7 (getPositionFromSide ''top'') (animation defaultOptions))] \<and>
     gsap_log (complete_tween zero_engine 0
        (dirHoverHandler zero_engine AnimOut (Some 7) defaultOptions (\<lambda>a ev. ''top'') () W)) =
       gsap_log (dirHoverHandler zero_engine AnimOut (Some 7) defaultOptions (\<lambda>a ev. ''top'') () W) @
         [GsapTo (next_tween W) 7 (getPositionFromSide ''top'') (animation defaultOptions)] \<and>
     tweenMap (complete_tween zero_engine 0
        (dirHoverHandler zero_engine AnimOut (Some 7) defaultOptions (\<lambda>a ev. ''top'') () W)) 7
       = Some (next_tween W)"
    by blast
  then show ?thesis
    unfolding W_def [symmetric] using h r n l by (simp add: getPositionFromSide_def)
qed

end
